theory Spec2Isabelle
  imports Main "HOL-Library.Word"
begin

section \<open>Kubernetes objects, as far as the engine reads them\<close>

text \<open>
  Go's \<open>int32\<close> and \<open>int64\<close> are words; a pointer field that may be nil is an
  \<open>option\<close>; a Go string is a \<open>string\<close>. Only the fields that the functions embedded
  below read or write are kept.
\<close>

type_synonym int32 = "32 word"
type_synonym int64 = "64 word"

record NamespacedName =
  Namespace :: string
  Name :: string

text \<open>
  \<open>intstr.IntOrString\<close> of the Kubernetes API: an integer or a string. Its method
  \<open>IntValue()\<close> returns the integer, or what \<open>strconv.Atoi\<close> returns for the string
  (the error is dropped). \<open>strconv.Atoi\<close> is Go's standard library: it is a parameter
  \<open>atoi\<close> of every function that reaches it.
\<close>

datatype IntOrString = IntVal int32 | StrVal string

fun IntValue :: "(string \<Rightarrow> int) \<Rightarrow> IntOrString \<Rightarrow> int" where
  "IntValue atoi (IntVal i) = sint i"
| "IntValue atoi (StrVal s) = atoi s"

record ServicePort =
  sp_Port :: int32
  sp_TargetPort :: IntOrString

record Service =
  svc_Namespace :: string
  svc_Name :: string
  svc_Ports :: "ServicePort list"

record EndpointPort =
  ep_Port :: "int32 option"

text \<open>\<open>discoveryV1.Endpoint\<close>: its addresses and \<open>Conditions.Ready\<close>, a \<open>*bool\<close>.\<close>

record DiscoveryEndpoint =
  de_Addresses :: "string list"
  de_Ready :: "bool option"

record OwnerReference =
  or_Kind :: string
  or_Name :: string

record EndpointSlice =
  es_Namespace :: string
  es_Name :: string
  es_AddressType :: string
  es_Endpoints :: "DiscoveryEndpoint list"
  es_Ports :: "EndpointPort list"
  es_OwnerReferences :: "OwnerReference list"

definition AddressTypeIPv4 :: string where
  "AddressTypeIPv4 = ''IPv4''"

text \<open>
  The Gateway API objects. \<open>BackendRef\<close> is the \<open>BackendObjectReference\<close> inside an
  \<open>HTTPBackendRef\<close>: \<open>Kind\<close> and \<open>Namespace\<close> are pointers.
\<close>

record BackendRef =
  ref_Kind :: "string option"
  ref_Namespace :: "string option"
  ref_Name :: string

record HTTPRouteRule =
  rule_BackendRefs :: "BackendRef list"

record HTTPRoute =
  hr_Namespace :: string
  hr_Name :: string
  hr_Generation :: int64
  hr_Rules :: "HTTPRouteRule list"

record Gateway =
  gw_Namespace :: string
  gw_Name :: string
  gw_Generation :: int64
  gw_GatewayClassName :: string

record GatewayClass =
  gc_Name :: string
  gc_Generation :: int64
  gc_ControllerName :: string

text \<open>
  A \<open>client.Object\<close> is one of the kinds the engine switches on, or an object of any
  other type. Where only the type of the object is looked at (the \<open>resourceType\<close> arguments),
  it is a \<open>ResourceType\<close>.
\<close>

datatype Object =
    GatewayClassObj GatewayClass
  | GatewayObj Gateway
  | HTTPRouteObj HTTPRoute
  | ServiceObj Service
  | EndpointSliceObj EndpointSlice
  | OtherObj

datatype ResourceType =
    GatewayClassType
  | GatewayType
  | HTTPRouteType
  | ServiceType
  | EndpointSliceType
  | OtherType

text \<open>\<open>client.ObjectKeyFromObject\<close> and \<open>getNamespacedName\<close>: namespace and name.\<close>

definition routeKey :: "HTTPRoute \<Rightarrow> NamespacedName" where
  "routeKey hr = \<lparr>Namespace = hr_Namespace hr, Name = hr_Name hr\<rparr>"

definition gatewayKey :: "Gateway \<Rightarrow> NamespacedName" where
  "gatewayKey gw = \<lparr>Namespace = gw_Namespace gw, Name = gw_Name gw\<rparr>"

definition sliceKey :: "EndpointSlice \<Rightarrow> NamespacedName" where
  "sliceKey es = \<lparr>Namespace = es_Namespace es, Name = es_Name es\<rparr>"

definition svcKey :: "Service \<Rightarrow> NamespacedName" where
  "svcKey svc = \<lparr>Namespace = svc_Namespace svc, Name = svc_Name svc\<rparr>"

section \<open>The endpoint resolver (internal/state/resolver/resolver.go)\<close>

record Endpoint =
  Address :: string
  Port :: int32

datatype resolveError =
    NilService
  | NoEndpointsFound NamespacedName
  | NoValidEndpoints NamespacedName int32
  | NoMatchingTargetPort string string int32

text \<open>
  \<open>getTargetPort\<close>: the loop stops at the first port equal to \<open>svcPort\<close>; a zero
  \<open>IntValue()\<close> there breaks out of the loop to the error. \<open>int32(val)\<close> keeps the low
  32 bits of the Go \<open>int\<close>.
\<close>

fun getTargetPortLoop :: "(string \<Rightarrow> int) \<Rightarrow> ServicePort list \<Rightarrow> int32 \<Rightarrow> int32 option" where
  "getTargetPortLoop atoi [] svcPort = None"
| "getTargetPortLoop atoi (port # ports) svcPort =
     (if sp_Port port = svcPort then
        (let val = IntValue atoi (sp_TargetPort port) in
         if val = 0 then None else Some (word_of_int val))
      else getTargetPortLoop atoi ports svcPort)"

definition getTargetPort :: "(string \<Rightarrow> int) \<Rightarrow> Service \<Rightarrow> int32 \<Rightarrow> resolveError + int32" where
  "getTargetPort atoi svc svcPort =
     (case getTargetPortLoop atoi (svc_Ports svc) svcPort of
        Some tp \<Rightarrow> Inr tp
      | None \<Rightarrow> Inl (NoMatchingTargetPort (svc_Namespace svc) (svc_Name svc) svcPort))"

fun targetPortExists :: "EndpointPort list \<Rightarrow> int32 \<Rightarrow> bool" where
  "targetPortExists [] targetPort = False"
| "targetPortExists (port # ports) targetPort =
     (case ep_Port port of
        None \<Rightarrow> targetPortExists ports targetPort
      | Some p \<Rightarrow> if p = targetPort then True else targetPortExists ports targetPort)"

definition ignoreEndpointSlice :: "EndpointSlice \<Rightarrow> int32 \<Rightarrow> bool" where
  "ignoreEndpointSlice endpointSlice targetPort =
     (es_AddressType endpointSlice \<noteq> AddressTypeIPv4
      \<or> \<not> targetPortExists (es_Ports endpointSlice) targetPort)"

definition endpointReady :: "DiscoveryEndpoint \<Rightarrow> bool" where
  "endpointReady endpoint = (case de_Ready endpoint of None \<Rightarrow> False | Some ready \<Rightarrow> ready)"

text \<open>
  \<open>calculateEndpointSliceCapacity\<close>: the two nested loops, with the running
  \<open>capacity\<close> as an accumulator.
\<close>

fun capacityOfEndpoints :: "DiscoveryEndpoint list \<Rightarrow> nat \<Rightarrow> nat" where
  "capacityOfEndpoints [] capacity = capacity"
| "capacityOfEndpoints (e # es) capacity =
     (if \<not> endpointReady e then capacityOfEndpoints es capacity
      else capacityOfEndpoints es (capacity + length (de_Addresses e)))"

fun capacityOfSlices :: "EndpointSlice list \<Rightarrow> int32 \<Rightarrow> nat \<Rightarrow> nat" where
  "capacityOfSlices [] targetPort capacity = capacity"
| "capacityOfSlices (es # rest) targetPort capacity =
     (if ignoreEndpointSlice es targetPort then capacityOfSlices rest targetPort capacity
      else capacityOfSlices rest targetPort (capacityOfEndpoints (es_Endpoints es) capacity))"

definition calculateEndpointSliceCapacity :: "EndpointSlice list \<Rightarrow> int32 \<Rightarrow> nat" where
  "calculateEndpointSliceCapacity endpointSlices targetPort =
     capacityOfSlices endpointSlices targetPort 0"

text \<open>
  The enumeration of \<open>resolveEndpoints\<close>: three nested loops appending to
  \<open>endpoints\<close>.
\<close>

fun appendAddresses :: "string list \<Rightarrow> int32 \<Rightarrow> Endpoint list \<Rightarrow> Endpoint list" where
  "appendAddresses [] targetPort endpoints = endpoints"
| "appendAddresses (address # rest) targetPort endpoints =
     appendAddresses rest targetPort (endpoints @ [\<lparr>Address = address, Port = targetPort\<rparr>])"

fun appendEndpoints :: "DiscoveryEndpoint list \<Rightarrow> int32 \<Rightarrow> Endpoint list \<Rightarrow> Endpoint list" where
  "appendEndpoints [] targetPort endpoints = endpoints"
| "appendEndpoints (endpoint # rest) targetPort endpoints =
     (if \<not> endpointReady endpoint then appendEndpoints rest targetPort endpoints
      else appendEndpoints rest targetPort
             (appendAddresses (de_Addresses endpoint) targetPort endpoints))"

fun appendSlices :: "EndpointSlice list \<Rightarrow> int32 \<Rightarrow> Endpoint list \<Rightarrow> Endpoint list" where
  "appendSlices [] targetPort endpoints = endpoints"
| "appendSlices (eps # rest) targetPort endpoints =
     (if ignoreEndpointSlice eps targetPort then appendSlices rest targetPort endpoints
      else appendSlices rest targetPort (appendEndpoints (es_Endpoints eps) targetPort endpoints))"

definition resolveEndpoints ::
  "(string \<Rightarrow> int) \<Rightarrow> Service \<Rightarrow> int32 \<Rightarrow> EndpointSlice list \<Rightarrow> resolveError + Endpoint list" where
  "resolveEndpoints atoi svc svcPort items =
     (case getTargetPort atoi svc svcPort of
        Inl err \<Rightarrow> Inl err
      | Inr targetPort \<Rightarrow>
          (let capacity = calculateEndpointSliceCapacity items targetPort in
           if capacity = 0 then Inl (NoValidEndpoints (svcKey svc) svcPort)
           else Inr (appendSlices items targetPort [])))"

text \<open>
  What \<open>client.List\<close> hands back to \<open>Resolve\<close>: whether it returned an error, and the
  items of the list it filled.
\<close>

record ListResult =
  listErr :: bool
  listItems :: "EndpointSlice list"

definition Resolve ::
  "(string \<Rightarrow> int) \<Rightarrow> ListResult \<Rightarrow> Service option \<Rightarrow> int32 \<Rightarrow> resolveError + Endpoint list" where
  "Resolve atoi listed svc svcPort =
     (case svc of
        None \<Rightarrow> Inl NilService
      | Some s \<Rightarrow>
          if listErr listed \<or> length (listItems listed) = 0
          then Inl (NoEndpointsFound (svcKey s))
          else resolveEndpoints atoi s svcPort (listItems listed))"

subsection \<open>What the specification says the resolver emits\<close>

text \<open>
  The specification's words for steps 4 and 5 of \<open>Resolve\<close>: drop a slice whose address type
  is not IPv4 or whose ports do not contain the target port; for each remaining slice and each
  endpoint whose Ready condition is present and true, one pair of address and target port
  per listed address.
\<close>

definition emittedPairs :: "EndpointSlice list \<Rightarrow> int32 \<Rightarrow> Endpoint list" where
  "emittedPairs items targetPort =
     concat (map (\<lambda>es.
         concat (map (\<lambda>e. map (\<lambda>a. \<lparr>Address = a, Port = targetPort\<rparr>) (de_Addresses e))
                     (filter (\<lambda>e. de_Ready e = Some True) (es_Endpoints es))))
       (filter (\<lambda>es. es_AddressType es = ''IPv4'' \<and> Some targetPort \<in> set (map ep_Port (es_Ports es)))
               items))"

text \<open>
  The endpoint readiness scenario of the specification, with a Service that maps port 8080
  to target port 80.
\<close>

definition scenarioAddresses :: "string list" where
  "scenarioAddresses = [''10.0.0.1'', ''10.0.0.2'', ''10.0.0.3'']"

definition scenarioSlice :: EndpointSlice where
  "scenarioSlice =
     \<lparr>es_Namespace = ''test'', es_Name = ''slice-1'', es_AddressType = ''IPv4'',
      es_Endpoints =
        [\<lparr>de_Addresses = scenarioAddresses, de_Ready = Some True\<rparr>,
         \<lparr>de_Addresses = scenarioAddresses, de_Ready = Some False\<rparr>,
         \<lparr>de_Addresses = scenarioAddresses, de_Ready = Some True\<rparr>],
      es_Ports = [\<lparr>ep_Port = Some 80\<rparr>],
      es_OwnerReferences = [\<lparr>or_Kind = ''Service'', or_Name = ''svc''\<rparr>]\<rparr>"

definition scenarioService :: Service where
  "scenarioService =
     \<lparr>svc_Namespace = ''test'', svc_Name = ''svc'',
      svc_Ports = [\<lparr>sp_Port = 8080, sp_TargetPort = IntVal 80\<rparr>]\<rparr>"

definition scenarioEndpoints :: "Endpoint list" where
  "scenarioEndpoints =
     [\<lparr>Address = ''10.0.0.1'', Port = 80\<rparr>, \<lparr>Address = ''10.0.0.2'', Port = 80\<rparr>,
      \<lparr>Address = ''10.0.0.3'', Port = 80\<rparr>, \<lparr>Address = ''10.0.0.1'', Port = 80\<rparr>,
      \<lparr>Address = ''10.0.0.2'', Port = 80\<rparr>, \<lparr>Address = ''10.0.0.3'', Port = 80\<rparr>]"

section \<open>Upstreams (internal/state/upstreams.go)\<close>

text \<open>
  \<open>backendService\<close>, \<open>backend\<close> and \<open>Upstream\<close> are declared in files of the package
  that are not under src/; their fields are the ones \<open>upstreams.go\<close> and its test use. A Go
  slice field that may be nil is an \<open>option\<close>: \<open>None\<close> is the nil slice, \<open>Some []\<close> the
  empty slice that is not nil.
\<close>

record backendService =
  bs_name :: string
  bs_namespace :: string
  bs_port :: int32

record backend =
  be_Endpoints :: "Endpoint list option"

record Upstream =
  up_Name :: string
  up_Endpoints :: "Endpoint list option"

definition InvalidBackendRef :: string where
  "InvalidBackendRef = ''invalid_backend_ref''"

text \<open>The verb \<open>%d\<close> of \<open>fmt.Sprintf\<close>: a signed integer in decimal.\<close>

definition digitChar :: "nat \<Rightarrow> char" where
  "digitChar d = ''0123456789'' ! d"

fun showNat :: "nat \<Rightarrow> string" where
  "showNat n = (if n < 10 then [digitChar n] else showNat (n div 10) @ [digitChar (n mod 10)])"

declare showNat.simps [simp del]

definition formatD :: "int \<Rightarrow> string" where
  "formatD i = (if i < 0 then CHR ''-'' # showNat (nat (- i)) else showNat (nat i))"

definition generateUpstreamName :: "backendService \<Rightarrow> string" where
  "generateUpstreamName service =
     (if bs_name service = '''' then InvalidBackendRef
      else bs_namespace service @ ''_'' @ bs_name service @ ''_''
             @ formatD (sint (bs_port service)))"

text \<open>
  \<open>buildUpstreams\<close> ranges over a Go map: the map is given as the list of its entries in
  the order the loop visits them.
\<close>

fun buildUpstreamsLoop :: "(backendService \<times> backend) list \<Rightarrow> Upstream list \<Rightarrow> Upstream list" where
  "buildUpstreamsLoop [] upstreams = upstreams"
| "buildUpstreamsLoop ((svc, b) # rest) upstreams =
     buildUpstreamsLoop rest
       (upstreams @ [\<lparr>up_Name = generateUpstreamName svc, up_Endpoints = be_Endpoints b\<rparr>])"

definition buildUpstreams :: "(backendService \<times> backend) list \<Rightarrow> Upstream list" where
  "buildUpstreams backends = buildUpstreamsLoop backends []"

text \<open>Two of the backends of \<open>TestBuildUpstreams\<close>.\<close>

definition nilEndpointsBackend :: "backendService \<times> backend" where
  "nilEndpointsBackend =
     (\<lparr>bs_name = ''nil-endpoints'', bs_namespace = ''test'', bs_port = 443\<rparr>,
      \<lparr>be_Endpoints = None\<rparr>)"

definition emptyEndpointsBackend :: "backendService \<times> backend" where
  "emptyEndpointsBackend =
     (\<lparr>bs_name = ''empty-endpoints'', bs_namespace = ''test'', bs_port = 443\<rparr>,
      \<lparr>be_Endpoints = Some []\<rparr>)"

section \<open>The relationship Capturer (package relationship)\<close>

text \<open>
  A Go map used as a set, \<open>map[types.NamespacedName]struct{}\<close>, is the list of its keys,
  without repetition; \<open>range\<close> visits the keys in the order of the list. Go leaves that
  order open: each loop below changes only the counter of the key it visits, so the
  result does not depend on it (\<open>decrementUnreferenced_order\<close> and its siblings).
  A nil map reads as the empty set. The counters are Go \<open>int\<close>s: they are bounded by the
  number of tracked routes, so they are unbounded integers here.
\<close>

record Capturer =
  routesToServices :: "NamespacedName \<rightharpoonup> NamespacedName list"
  serviceRefCount :: "NamespacedName \<rightharpoonup> int"
  endpointSliceOwners :: "NamespacedName \<rightharpoonup> NamespacedName"

definition NewCapturer :: Capturer where
  "NewCapturer =
     \<lparr>routesToServices = Map.empty, serviceRefCount = Map.empty,
      endpointSliceOwners = Map.empty\<rparr>"

text \<open>Reading a Go map of integers: a missing key reads as 0.\<close>

definition refCountOf :: "(NamespacedName \<rightharpoonup> int) \<Rightarrow> NamespacedName \<Rightarrow> int" where
  "refCountOf m k = (case m k of None \<Rightarrow> 0 | Some n \<Rightarrow> n)"

text \<open>Reading a Go map of sets: a missing key reads as the nil map.\<close>

definition servicesOf ::
  "(NamespacedName \<rightharpoonup> NamespacedName list) \<Rightarrow> NamespacedName \<Rightarrow> NamespacedName list" where
  "servicesOf m k = (case m k of None \<Rightarrow> [] | Some services \<Rightarrow> services)"

fun collectServiceNames ::
  "string \<Rightarrow> HTTPRouteRule list \<Rightarrow> NamespacedName list \<Rightarrow> NamespacedName list" where
  "collectServiceNames hrNamespace [] svcNames = svcNames"
| "collectServiceNames hrNamespace (rule # rules) svcNames =
     (case rule_BackendRefs rule of
        [] \<Rightarrow> collectServiceNames hrNamespace rules svcNames
      | ref # _ \<Rightarrow>
          if (case ref_Kind ref of None \<Rightarrow> False | Some kind \<Rightarrow> kind \<noteq> ''Service'')
          then collectServiceNames hrNamespace rules svcNames
          else
            (let ns = (case ref_Namespace ref of None \<Rightarrow> hrNamespace | Some n \<Rightarrow> n) in
             collectServiceNames hrNamespace rules
               (List.insert \<lparr>Namespace = ns, Name = ref_Name ref\<rparr> svcNames)))"

definition getBackendServiceNamesFromRoute :: "HTTPRoute \<Rightarrow> NamespacedName list" where
  "getBackendServiceNamesFromRoute hr = collectServiceNames (hr_Namespace hr) (hr_Rules hr) []"

definition decrementRefCount :: "NamespacedName \<Rightarrow> Capturer \<Rightarrow> Capturer" where
  "decrementRefCount svcName c =
     (if refCountOf (serviceRefCount c) svcName = 1
      then c\<lparr>serviceRefCount := (serviceRefCount c)(svcName := None)\<rparr>
      else c\<lparr>serviceRefCount :=
               (serviceRefCount c)(svcName \<mapsto> refCountOf (serviceRefCount c) svcName - 1)\<rparr>)"

definition incrementRefCount :: "NamespacedName \<Rightarrow> Capturer \<Rightarrow> Capturer" where
  "incrementRefCount svc c =
     c\<lparr>serviceRefCount := (serviceRefCount c)(svc \<mapsto> refCountOf (serviceRefCount c) svc + 1)\<rparr>"

text \<open>The first loop of \<open>upsertForRoute\<close>, over \<open>oldServices\<close>.\<close>

fun decrementUnreferenced ::
  "NamespacedName list \<Rightarrow> NamespacedName list \<Rightarrow> Capturer \<Rightarrow> Capturer" where
  "decrementUnreferenced [] newServices c = c"
| "decrementUnreferenced (svc # rest) newServices c =
     (if svc \<notin> set newServices
      then decrementUnreferenced rest newServices (decrementRefCount svc c)
      else decrementUnreferenced rest newServices c)"

text \<open>The second loop of \<open>upsertForRoute\<close>, over \<open>newServices\<close>.\<close>

fun incrementNew ::
  "NamespacedName list \<Rightarrow> NamespacedName list \<Rightarrow> Capturer \<Rightarrow> Capturer" where
  "incrementNew [] oldServices c = c"
| "incrementNew (svc # rest) oldServices c =
     (if svc \<notin> set oldServices
      then incrementNew rest oldServices (incrementRefCount svc c)
      else incrementNew rest oldServices c)"

definition upsertForRoute :: "HTTPRoute \<Rightarrow> Capturer \<Rightarrow> Capturer" where
  "upsertForRoute route c =
     (let oldServices = servicesOf (routesToServices c) (routeKey route);
          newServices = getBackendServiceNamesFromRoute route;
          c1 = decrementUnreferenced oldServices newServices c;
          c2 = incrementNew newServices oldServices c1
      in c2\<lparr>routesToServices := (routesToServices c2)(routeKey route \<mapsto> newServices)\<rparr>)"

text \<open>The loop of \<open>deleteForRoute\<close>.\<close>

fun decrementAll :: "NamespacedName list \<Rightarrow> Capturer \<Rightarrow> Capturer" where
  "decrementAll [] c = c"
| "decrementAll (svc # rest) c = decrementAll rest (decrementRefCount svc c)"

definition deleteForRoute :: "NamespacedName \<Rightarrow> Capturer \<Rightarrow> Capturer" where
  "deleteForRoute routeName c =
     (let services = servicesOf (routesToServices c) routeName;
          c1 = decrementAll services c
      in c1\<lparr>routesToServices := (routesToServices c1)(routeName := None)\<rparr>)"

text \<open>
  \<open>Capture\<close>, \<open>Remove\<close> and \<open>Exists\<close>. \<open>sdk.GetServiceNameFromEndpointSlice\<close> is in a
  package that is not under src/: it is the parameter \<open>getServiceName\<close>.
\<close>

fun Capture :: "(EndpointSlice \<Rightarrow> string) \<Rightarrow> Object \<Rightarrow> Capturer \<Rightarrow> Capturer" where
  "Capture getServiceName (HTTPRouteObj route) c = upsertForRoute route c"
| "Capture getServiceName (EndpointSliceObj es) c =
     (let svcName = getServiceName es in
      if svcName \<noteq> ''''
      then c\<lparr>endpointSliceOwners :=
               (endpointSliceOwners c)(sliceKey es \<mapsto>
                  \<lparr>Namespace = es_Namespace es, Name = svcName\<rparr>)\<rparr>
      else c)"
| "Capture getServiceName obj c = c"

fun Remove :: "ResourceType \<Rightarrow> NamespacedName \<Rightarrow> Capturer \<Rightarrow> Capturer" where
  "Remove HTTPRouteType nsname c = deleteForRoute nsname c"
| "Remove EndpointSliceType nsname c =
     c\<lparr>endpointSliceOwners := (endpointSliceOwners c)(nsname := None)\<rparr>"
| "Remove resourceType nsname c = c"

fun Exists :: "ResourceType \<Rightarrow> NamespacedName \<Rightarrow> Capturer \<Rightarrow> bool" where
  "Exists ServiceType nsname c = (refCountOf (serviceRefCount c) nsname > 0)"
| "Exists EndpointSliceType nsname c =
     (case endpointSliceOwners c nsname of
        None \<Rightarrow> False
      | Some svcOwner \<Rightarrow> refCountOf (serviceRefCount c) svcOwner > 0)"
| "Exists resourceType nsname c = False"

text \<open>
  What \<open>decrementRefCount\<close> and the increment \<open>c.serviceRefCount[svc]++\<close> do to the entry
  of the key they visit.
\<close>

definition decremented :: "int option \<Rightarrow> int option" where
  "decremented v = (let n = (case v of None \<Rightarrow> 0 | Some n \<Rightarrow> n) in if n = 1 then None else Some (n - 1))"

definition incremented :: "int option \<Rightarrow> int option" where
  "incremented v = Some ((case v of None \<Rightarrow> 0 | Some n \<Rightarrow> n) + 1)"

subsection \<open>Sequences of Capture and Remove\<close>

datatype capturerOp = CaptureOp Object | RemoveOp ResourceType NamespacedName

fun applyOp :: "(EndpointSlice \<Rightarrow> string) \<Rightarrow> Capturer \<Rightarrow> capturerOp \<Rightarrow> Capturer" where
  "applyOp getServiceName c (CaptureOp obj) = Capture getServiceName obj c"
| "applyOp getServiceName c (RemoveOp resourceType nsname) = Remove resourceType nsname c"

definition replay :: "(EndpointSlice \<Rightarrow> string) \<Rightarrow> capturerOp list \<Rightarrow> Capturer" where
  "replay getServiceName ops = foldl (applyOp getServiceName) NewCapturer ops"

text \<open>
  The specification's side: the backend service set last captured for each route that has
  not been removed since, and the routes whose set contains a service.
\<close>

fun lastCapturedStep ::
  "(NamespacedName \<rightharpoonup> NamespacedName list) \<Rightarrow> capturerOp
     \<Rightarrow> (NamespacedName \<rightharpoonup> NamespacedName list)" where
  "lastCapturedStep m (CaptureOp (HTTPRouteObj route)) =
     m(routeKey route \<mapsto> getBackendServiceNamesFromRoute route)"
| "lastCapturedStep m (RemoveOp HTTPRouteType nsname) = m(nsname := None)"
| "lastCapturedStep m other = m"

definition lastCaptured :: "capturerOp list \<Rightarrow> (NamespacedName \<rightharpoonup> NamespacedName list)" where
  "lastCaptured ops = foldl lastCapturedStep Map.empty ops"

definition routesReferencing ::
  "(NamespacedName \<rightharpoonup> NamespacedName list) \<Rightarrow> NamespacedName \<Rightarrow> NamespacedName set" where
  "routesReferencing m s = {r. \<exists>services. m r = Some services \<and> s \<in> set services}"

definition expectedCount ::
  "(NamespacedName \<rightharpoonup> NamespacedName list) \<Rightarrow> NamespacedName \<Rightarrow> int option" where
  "expectedCount m s =
     (if card (routesReferencing m s) = 0 then None
      else Some (int (card (routesReferencing m s))))"

text \<open>The invariant of the Capturer: what every reachable state satisfies.\<close>

definition tracked :: "Capturer \<Rightarrow> bool" where
  "tracked c =
     (finite (dom (routesToServices c))
      \<and> (\<forall>r services. routesToServices c r = Some services \<longrightarrow> distinct services)
      \<and> (\<forall>s. serviceRefCount c s = expectedCount (routesToServices c) s))"

text \<open>Two routes that reference the same Service, for the examples.\<close>

definition fooRef :: BackendRef where
  "fooRef = \<lparr>ref_Kind = Some ''Service'', ref_Namespace = None, ref_Name = ''foo''\<rparr>"

definition barRef :: BackendRef where
  "barRef = \<lparr>ref_Kind = None, ref_Namespace = Some ''other'', ref_Name = ''bar''\<rparr>"

definition route1 :: HTTPRoute where
  "route1 =
     \<lparr>hr_Namespace = ''test'', hr_Name = ''hr-1'', hr_Generation = 1,
      hr_Rules = [\<lparr>rule_BackendRefs = [fooRef]\<rparr>, \<lparr>rule_BackendRefs = [barRef, fooRef]\<rparr>]\<rparr>"

definition route2 :: HTTPRoute where
  "route2 =
     \<lparr>hr_Namespace = ''test'', hr_Name = ''hr-2'', hr_Generation = 1,
      hr_Rules = [\<lparr>rule_BackendRefs = []\<rparr>, \<lparr>rule_BackendRefs = [fooRef]\<rparr>]\<rparr>"

section \<open>The change processor (package state, \<open>ChangeProcessorImpl\<close>)\<close>

text \<open>
  The \<open>store\<close> type is declared in a file that is not under src/: its fields are the ones
  the change processor reads and writes. The set of routes of a Service,
  \<open>map[types.NamespacedName]struct{}\<close>, is only inserted into, deleted from and tested for
  emptiness here, never ranged over: it is a set.
\<close>

record store =
  st_gc :: "GatewayClass option"
  st_gateways :: "NamespacedName \<rightharpoonup> Gateway"
  st_httpRoutes :: "NamespacedName \<rightharpoonup> HTTPRoute"
  st_services :: "NamespacedName \<rightharpoonup> NamespacedName set"
  st_endpointSlices :: "NamespacedName \<rightharpoonup> EndpointSlice"

text \<open>
  Modelled from the spec: \<open>newStore\<close>, which is not under src/. "Construction yields an
  empty store with all mappings present and empty."
\<close>

definition newStore :: store where
  "newStore =
     \<lparr>st_gc = None, st_gateways = Map.empty, st_httpRoutes = Map.empty,
      st_services = Map.empty, st_endpointSlices = Map.empty\<rparr>"

text \<open>
  Of \<open>ChangeProcessorConfig\<close>, the two names. The secret memory manager, the service store
  and the logger are collaborators that only \<open>buildGraph\<close> and the logging of warnings
  use. The mutex makes every operation atomic: the operations are functions on the state.
\<close>

record ChangeProcessorConfig =
  GatewayCtlrName :: string
  GatewayClassName :: string

record ChangeProcessorImpl =
  cp_store :: store
  storeChanged :: bool
  cfg :: ChangeProcessorConfig

definition NewChangeProcessorImpl :: "ChangeProcessorConfig \<Rightarrow> ChangeProcessorImpl" where
  "NewChangeProcessorImpl config = \<lparr>cp_store = newStore, storeChanged = False, cfg = config\<rparr>"

text \<open>The two panics: an object of a type that is not supported, and a GatewayClass
  whose name is not the configured one (expected name, name got).\<close>

datatype panic = UnsupportedType | WrongGatewayClassName string string

text \<open>
  \<open>getBackendServiceNamesFromRoute\<close> of package state returns a slice, in rule order and
  with repetitions.
\<close>

fun appendServiceNames ::
  "string \<Rightarrow> HTTPRouteRule list \<Rightarrow> NamespacedName list \<Rightarrow> NamespacedName list" where
  "appendServiceNames hrNamespace [] svcNames = svcNames"
| "appendServiceNames hrNamespace (rule # rules) svcNames =
     (case rule_BackendRefs rule of
        [] \<Rightarrow> appendServiceNames hrNamespace rules svcNames
      | ref # _ \<Rightarrow>
          if (case ref_Kind ref of None \<Rightarrow> False | Some kind \<Rightarrow> kind \<noteq> ''Service'')
          then appendServiceNames hrNamespace rules svcNames
          else
            (let ns = (case ref_Namespace ref of None \<Rightarrow> hrNamespace | Some n \<Rightarrow> n) in
             appendServiceNames hrNamespace rules
               (svcNames @ [\<lparr>Namespace = ns, Name = ref_Name ref\<rparr>])))"

definition getBackendServiceNamesFromRoute_state :: "HTTPRoute \<Rightarrow> NamespacedName list" where
  "getBackendServiceNamesFromRoute_state hr =
     appendServiceNames (hr_Namespace hr) (hr_Rules hr) []"

fun updateServicesLoop :: "NamespacedName \<Rightarrow> NamespacedName list \<Rightarrow> store \<Rightarrow> store" where
  "updateServicesLoop hrKey [] s = s"
| "updateServicesLoop hrKey (svcNsname # rest) s =
     (case st_services s svcNsname of
        None \<Rightarrow>
          updateServicesLoop hrKey rest (s\<lparr>st_services := (st_services s)(svcNsname \<mapsto> {hrKey})\<rparr>)
      | Some existingRoutesForSvc \<Rightarrow>
          updateServicesLoop hrKey rest
            (s\<lparr>st_services :=
                 (st_services s)(svcNsname \<mapsto> insert hrKey existingRoutesForSvc)\<rparr>))"

definition updateServicesMap :: "HTTPRoute \<Rightarrow> store \<Rightarrow> store" where
  "updateServicesMap hr s =
     updateServicesLoop (routeKey hr) (getBackendServiceNamesFromRoute_state hr) s"

fun removeRouteLoop :: "NamespacedName \<Rightarrow> NamespacedName list \<Rightarrow> store \<Rightarrow> store" where
  "removeRouteLoop hrKey [] s = s"
| "removeRouteLoop hrKey (svcName # rest) s =
     (case st_services s svcName of
        None \<Rightarrow> removeRouteLoop hrKey rest s
      | Some routesForSvc \<Rightarrow>
          if routesForSvc - {hrKey} = {}
          then removeRouteLoop hrKey rest (s\<lparr>st_services := (st_services s)(svcName := None)\<rparr>)
          else removeRouteLoop hrKey rest
                 (s\<lparr>st_services := (st_services s)(svcName \<mapsto> routesForSvc - {hrKey})\<rparr>))"

definition removeRouteFromServicesMap :: "HTTPRoute \<Rightarrow> store \<Rightarrow> store" where
  "removeRouteFromServicesMap hr s =
     removeRouteLoop (routeKey hr) (getBackendServiceNamesFromRoute_state hr) s"

fun ownerInServices :: "string \<Rightarrow> OwnerReference list \<Rightarrow> store \<Rightarrow> bool" where
  "ownerInServices esNamespace [] s = False"
| "ownerInServices esNamespace (ownerRef # rest) s =
     (if or_Kind ownerRef \<noteq> ''Service'' then ownerInServices esNamespace rest s
      else if st_services s \<lparr>Namespace = esNamespace, Name = or_Name ownerRef\<rparr> \<noteq> None then True
      else ownerInServices esNamespace rest s)"

definition updateNeededForEndpointSlice :: "EndpointSlice \<Rightarrow> store \<Rightarrow> bool" where
  "updateNeededForEndpointSlice endpointSlice s =
     ownerInServices (es_Namespace endpointSlice) (es_OwnerReferences endpointSlice) s"

text \<open>
  The capture functions return \<open>resourceChanged\<close> and the new state of the processor.
\<close>

definition captureGatewayClassChange ::
  "GatewayClass \<Rightarrow> ChangeProcessorImpl \<Rightarrow> panic + (bool \<times> ChangeProcessorImpl)" where
  "captureGatewayClassChange gc c =
     (if gc_Name gc \<noteq> GatewayClassName (cfg c)
      then Inl (WrongGatewayClassName (GatewayClassName (cfg c)) (gc_Name gc))
      else
        (let resourceChanged =
               (case st_gc (cp_store c) of
                  None \<Rightarrow> True
                | Some prev \<Rightarrow> if gc_Generation prev = gc_Generation gc then False else True)
         in Inr (resourceChanged, c\<lparr>cp_store := (cp_store c)\<lparr>st_gc := Some gc\<rparr>\<rparr>)))"

definition captureGatewayChange :: "Gateway \<Rightarrow> ChangeProcessorImpl \<Rightarrow> bool \<times> ChangeProcessorImpl" where
  "captureGatewayChange gw c =
     (let resourceChanged =
            (case st_gateways (cp_store c) (gatewayKey gw) of
               None \<Rightarrow> True
             | Some prev \<Rightarrow> if gw_Generation gw = gw_Generation prev then False else True)
      in (resourceChanged,
          c\<lparr>cp_store := (cp_store c)\<lparr>st_gateways := (st_gateways (cp_store c))(gatewayKey gw \<mapsto> gw)\<rparr>\<rparr>))"

definition captureHTTPRouteChange :: "HTTPRoute \<Rightarrow> ChangeProcessorImpl \<Rightarrow> bool \<times> ChangeProcessorImpl" where
  "captureHTTPRouteChange hr c =
     (let resourceChanged =
            (case st_httpRoutes (cp_store c) (routeKey hr) of
               None \<Rightarrow> True
             | Some prev \<Rightarrow> if hr_Generation hr = hr_Generation prev then False else True);
          s1 = (cp_store c)\<lparr>st_httpRoutes := (st_httpRoutes (cp_store c))(routeKey hr \<mapsto> hr)\<rparr>
      in (resourceChanged, c\<lparr>cp_store := updateServicesMap hr s1\<rparr>))"

definition captureServiceChange :: "Service \<Rightarrow> ChangeProcessorImpl \<Rightarrow> bool" where
  "captureServiceChange svc c = (st_services (cp_store c) (svcKey svc) \<noteq> None)"

definition captureEndpointSliceChange ::
  "EndpointSlice \<Rightarrow> ChangeProcessorImpl \<Rightarrow> bool \<times> ChangeProcessorImpl" where
  "captureEndpointSliceChange es c =
     (if updateNeededForEndpointSlice es (cp_store c)
      then (True,
            c\<lparr>cp_store :=
                (cp_store c)\<lparr>st_endpointSlices := (st_endpointSlices (cp_store c))(sliceKey es \<mapsto> es)\<rparr>\<rparr>)
      else (False, c))"

text \<open>The last statement of both capture operations: the flag is sticky.\<close>

definition markChanged :: "bool \<times> ChangeProcessorImpl \<Rightarrow> ChangeProcessorImpl" where
  "markChanged r = (snd r)\<lparr>storeChanged := (storeChanged (snd r) \<or> fst r)\<rparr>"

fun CaptureUpsertChange :: "Object \<Rightarrow> ChangeProcessorImpl \<Rightarrow> panic + ChangeProcessorImpl" where
  "CaptureUpsertChange (GatewayClassObj gc) c =
     (case captureGatewayClassChange gc c of
        Inl p \<Rightarrow> Inl p
      | Inr r \<Rightarrow> Inr (markChanged r))"
| "CaptureUpsertChange (GatewayObj gw) c = Inr (markChanged (captureGatewayChange gw c))"
| "CaptureUpsertChange (HTTPRouteObj hr) c = Inr (markChanged (captureHTTPRouteChange hr c))"
| "CaptureUpsertChange (ServiceObj svc) c = Inr (markChanged (captureServiceChange svc c, c))"
| "CaptureUpsertChange (EndpointSliceObj es) c = Inr (markChanged (captureEndpointSliceChange es c))"
| "CaptureUpsertChange OtherObj c = Inl UnsupportedType"

fun CaptureDeleteChange ::
  "ResourceType \<Rightarrow> NamespacedName \<Rightarrow> ChangeProcessorImpl \<Rightarrow> panic + ChangeProcessorImpl" where
  "CaptureDeleteChange GatewayClassType nsname c =
     (if Name nsname \<noteq> GatewayClassName (cfg c)
      then Inl (WrongGatewayClassName (GatewayClassName (cfg c)) (Name nsname))
      else Inr (markChanged (True, c\<lparr>cp_store := (cp_store c)\<lparr>st_gc := None\<rparr>\<rparr>)))"
| "CaptureDeleteChange GatewayType nsname c =
     Inr (markChanged
       (True,
        c\<lparr>cp_store := (cp_store c)\<lparr>st_gateways := (st_gateways (cp_store c))(nsname := None)\<rparr>\<rparr>))"
| "CaptureDeleteChange HTTPRouteType nsname c =
     (let s1 = (case st_httpRoutes (cp_store c) nsname of
                  None \<Rightarrow> cp_store c
                | Some r \<Rightarrow> removeRouteFromServicesMap r (cp_store c))
      in Inr (markChanged
           (True, c\<lparr>cp_store := s1\<lparr>st_httpRoutes := (st_httpRoutes s1)(nsname := None)\<rparr>\<rparr>)))"
| "CaptureDeleteChange ServiceType nsname c =
     Inr (markChanged (st_services (cp_store c) nsname \<noteq> None, c))"
| "CaptureDeleteChange EndpointSliceType nsname c =
     (let resourceChanged =
            (case st_endpointSlices (cp_store c) nsname of
               None \<Rightarrow> False
             | Some es \<Rightarrow> updateNeededForEndpointSlice es (cp_store c))
      in Inr (markChanged
           (resourceChanged,
            c\<lparr>cp_store :=
                (cp_store c)\<lparr>st_endpointSlices := (st_endpointSlices (cp_store c))(nsname := None)\<rparr>\<rparr>)))"
| "CaptureDeleteChange OtherType nsname c = Inl UnsupportedType"

text \<open>
  \<open>Process\<close>. The graph builder, the configuration builder and the status builder are
  not under src/: they are the fields of \<open>builders\<close>, together with the zero values of
  \<open>Configuration\<close> and \<open>Statuses\<close>, which the named results of \<open>Process\<close> hold when it
  returns early. \<open>buildGraph\<close> returns the graph and the warnings; the warnings are only
  logged.
\<close>

record ('g, 'w, 'conf, 'st) builders =
  buildGraph :: "store \<Rightarrow> string \<Rightarrow> string \<Rightarrow> 'g \<times> 'w"
  buildConfiguration :: "'g \<Rightarrow> 'conf"
  buildStatuses :: "'g \<Rightarrow> 'st"
  zeroConfiguration :: 'conf
  zeroStatuses :: 'st

definition Process ::
  "('g, 'w, 'conf, 'st) builders \<Rightarrow> ChangeProcessorImpl
     \<Rightarrow> (bool \<times> 'conf \<times> 'st) \<times> ChangeProcessorImpl" where
  "Process b c =
     (if \<not> storeChanged c then ((False, zeroConfiguration b, zeroStatuses b), c)
      else
        (let c1 = c\<lparr>storeChanged := False\<rparr>;
             graph = fst (buildGraph b (cp_store c1) (GatewayCtlrName (cfg c1))
                            (GatewayClassName (cfg c1)))
         in ((True, buildConfiguration b graph, buildStatuses b graph), c1)))"

text \<open>A processor and objects for the examples.\<close>

definition exampleConfig :: ChangeProcessorConfig where
  "exampleConfig = \<lparr>GatewayCtlrName = ''my.controller'', GatewayClassName = ''my-class''\<rparr>"

definition exampleClass :: GatewayClass where
  "exampleClass =
     \<lparr>gc_Name = ''my-class'', gc_Generation = 1, gc_ControllerName = ''my.controller''\<rparr>"

definition exampleGateway :: Gateway where
  "exampleGateway =
     \<lparr>gw_Namespace = ''test'', gw_Name = ''gateway'', gw_Generation = 1,
      gw_GatewayClassName = ''my-class''\<rparr>"

definition exampleBuilders :: "(nat, unit, nat, bool) builders" where
  "exampleBuilders =
     \<lparr>buildGraph = (\<lambda>s ctlr cls. (length ctlr + length cls, ())),
      buildConfiguration = (\<lambda>g. g + 1),
      buildStatuses = (\<lambda>g. True),
      zeroConfiguration = 0,
      zeroStatuses = False\<rparr>"

text \<open>
  A processor that holds \<open>exampleClass\<close>, \<open>exampleGateway\<close> and \<open>route1\<close> and has been
  processed, and objects with the same keys and Generations but other contents.
\<close>

definition storedProcessor :: ChangeProcessorImpl where
  "storedProcessor =
     \<lparr>cp_store =
        \<lparr>st_gc = Some exampleClass,
         st_gateways = [gatewayKey exampleGateway \<mapsto> exampleGateway],
         st_httpRoutes = [routeKey route1 \<mapsto> route1],
         st_services = [\<lparr>Namespace = ''test'', Name = ''foo''\<rparr> \<mapsto> {routeKey route1},
                        \<lparr>Namespace = ''other'', Name = ''bar''\<rparr> \<mapsto> {routeKey route1}],
         st_endpointSlices = Map.empty\<rparr>,
      storeChanged = False,
      cfg = exampleConfig\<rparr>"

definition exampleClass2 :: GatewayClass where
  "exampleClass2 = exampleClass\<lparr>gc_ControllerName := ''other.controller''\<rparr>"

definition exampleGateway2 :: Gateway where
  "exampleGateway2 = exampleGateway\<lparr>gw_GatewayClassName := ''other-class''\<rparr>"

definition route1b :: HTTPRoute where
  "route1b = route1\<lparr>hr_Rules := [\<lparr>rule_BackendRefs = [fooRef]\<rparr>]\<rparr>"

section \<open>Properties of the endpoint resolver\<close>

text \<open>The loops of the resolver, as maps and filters over their input lists.\<close>

lemma targetPortExists_iff:
  "targetPortExists ports tp = (Some tp \<in> set (map ep_Port ports))"
  by (induction ports) (auto split: option.splits)

lemma endpointReady_iff: "endpointReady e = (de_Ready e = Some True)"
  by (simp add: endpointReady_def split: option.splits)

lemma ignoreEndpointSlice_iff:
  "ignoreEndpointSlice es tp =
     (\<not> (es_AddressType es = ''IPv4'' \<and> Some tp \<in> set (map ep_Port (es_Ports es))))"
  by (simp add: ignoreEndpointSlice_def AddressTypeIPv4_def targetPortExists_iff)

lemma appendAddresses_eq:
  "appendAddresses as tp acc = acc @ map (\<lambda>a. \<lparr>Address = a, Port = tp\<rparr>) as"
  by (induction as arbitrary: acc) simp_all

lemma appendEndpoints_eq:
  "appendEndpoints es tp acc =
     acc @ concat (map (\<lambda>e. map (\<lambda>a. \<lparr>Address = a, Port = tp\<rparr>) (de_Addresses e))
                       (filter (\<lambda>e. de_Ready e = Some True) es))"
  by (induction es arbitrary: acc) (simp_all add: appendAddresses_eq endpointReady_iff)

lemma emittedPairs_Nil: "emittedPairs [] tp = []"
  by (simp add: emittedPairs_def)

lemma emittedPairs_Cons:
  "emittedPairs (es # rest) tp =
     (if ignoreEndpointSlice es tp then emittedPairs rest tp
      else appendEndpoints (es_Endpoints es) tp [] @ emittedPairs rest tp)"
  by (simp add: emittedPairs_def ignoreEndpointSlice_iff appendEndpoints_eq)

lemma appendSlices_eq:
  "appendSlices items tp acc = acc @ emittedPairs items tp"
proof (induction items arbitrary: acc)
  case Nil
  show ?case by (simp add: emittedPairs_Nil)
next
  case (Cons es rest)
  show ?case
    by (simp add: Cons.IH emittedPairs_Cons appendEndpoints_eq)
qed




lemma getTargetPortLoop_None:
  "filter (\<lambda>p. sp_Port p = svcPort \<and> IntValue atoi (sp_TargetPort p) \<noteq> 0) ports = []
     \<Longrightarrow> getTargetPortLoop atoi ports svcPort = None"
  by (induction ports) (auto simp: Let_def split: if_splits)

lemmas scenario_defs =
  scenarioAddresses_def scenarioSlice_def scenarioService_def scenarioEndpoints_def

lemmas resolver_defs =
  Resolve_def resolveEndpoints_def getTargetPort_def calculateEndpointSliceCapacity_def
  ignoreEndpointSlice_def endpointReady_def AddressTypeIPv4_def svcKey_def

text \<open>
  C3. When \<open>Resolve\<close> returns endpoints for a non-nil Service, they are exactly
  \<open>emittedPairs\<close> for the target port that \<open>getTargetPort\<close> resolved: one pair per listed
  address of every endpoint whose Ready condition is present and true, of every slice whose
  address type is IPv4 and whose ports contain the target port, in order; and the Port of
  every pair is the target port.
\<close>

theorem Resolve_emits_ready_ipv4_pairs:
  assumes "Resolve atoi listed (Some svc) svcPort = Inr endpoints"
  shows "\<exists>tp. getTargetPort atoi svc svcPort = Inr tp
            \<and> endpoints = emittedPairs (listItems listed) tp
            \<and> list_all (\<lambda>ep. Port ep = tp) endpoints"
proof -
  from assms obtain tp where tp: "getTargetPort atoi svc svcPort = Inr tp"
    and eps: "endpoints = appendSlices (listItems listed) tp []"
    by (auto simp: Resolve_def resolveEndpoints_def Let_def split: if_splits sum.splits)
  have eq: "endpoints = emittedPairs (listItems listed) tp"
    using eps by (simp add: appendSlices_eq)
  have "list_all (\<lambda>ep. Port ep = tp) (emittedPairs (listItems listed) tp)"
    by (auto simp: emittedPairs_def list_all_iff)
  with tp eq show ?thesis by blast
qed

text \<open>
  The endpoint readiness scenario of the specification: one slice for port 80 with three
  addresses on each of two ready endpoints and one endpoint that is not ready gives six
  endpoints.
\<close>

theorem Resolve_emits_ready_ipv4_pairs_witness:
  "Resolve (\<lambda>s. 0) \<lparr>listErr = False, listItems = [scenarioSlice]\<rparr> (Some scenarioService) 8080
     = Inr scenarioEndpoints
   \<and> (\<exists>tp. getTargetPort (\<lambda>s. 0) scenarioService 8080 = Inr tp
          \<and> scenarioEndpoints = emittedPairs [scenarioSlice] tp
          \<and> list_all (\<lambda>ep. Port ep = tp) scenarioEndpoints)"
proof -
  have run: "Resolve (\<lambda>s. 0) \<lparr>listErr = False, listItems = [scenarioSlice]\<rparr>
               (Some scenarioService) 8080 = Inr scenarioEndpoints"
    by (simp add: resolver_defs scenario_defs)
  from Resolve_emits_ready_ipv4_pairs [OF run] run show ?thesis by simp
qed

text \<open>
  C4, as the code has it. \<open>Resolve\<close> lists the EndpointSlices before it looks at the Service's
  ports. For a non-nil Service none of whose ports has port \<open>svcPort\<close> and a non-zero integer
  target port, \<open>Resolve\<close> fails with the "no matching target port" error when the listing
  succeeds with at least one slice, and with the "no endpoints found" error when the listing
  fails or is empty.
\<close>

theorem Resolve_no_matching_target_port:
  assumes "filter (\<lambda>p. sp_Port p = svcPort \<and> IntValue atoi (sp_TargetPort p) \<noteq> 0)
             (svc_Ports svc) = []"
  shows "Resolve atoi listed (Some svc) svcPort =
           (if listErr listed \<or> listItems listed = []
            then Inl (NoEndpointsFound (svcKey svc))
            else Inl (NoMatchingTargetPort (svc_Namespace svc) (svc_Name svc) svcPort))"
  using getTargetPortLoop_None [OF assms]
  by (simp add: Resolve_def resolveEndpoints_def getTargetPort_def)

theorem Resolve_no_matching_target_port_witness:
  "filter (\<lambda>p. sp_Port p = 80 \<and> IntValue (\<lambda>s. 0) (sp_TargetPort p) \<noteq> 0)
     (svc_Ports scenarioService) = []
   \<and> Resolve (\<lambda>s. 0) \<lparr>listErr = False, listItems = [scenarioSlice]\<rparr> (Some scenarioService) 80
       = Inl (NoMatchingTargetPort ''test'' ''svc'' 80)"
proof -
  have none: "filter (\<lambda>p. sp_Port p = 80 \<and> IntValue (\<lambda>s. 0) (sp_TargetPort p) \<noteq> 0)
                (svc_Ports scenarioService) = []"
    by (simp add: scenarioService_def)
  from Resolve_no_matching_target_port
         [OF none, of "\<lparr>listErr = False, listItems = [scenarioSlice]\<rparr>"] none
  show ?thesis by (simp add: scenarioService_def)
qed

text \<open>
  C4 as stated fails when no EndpointSlice exists: the Service has no port 80, the listing
  is empty, and the error is "no endpoints found", not "no matching target port".
\<close>

theorem Resolve_no_slices_counterexample:
  "filter (\<lambda>p. sp_Port p = 80 \<and> IntValue (\<lambda>s. 0) (sp_TargetPort p) \<noteq> 0)
     (svc_Ports scenarioService) = []
   \<and> Resolve (\<lambda>s. 0) \<lparr>listErr = False, listItems = []\<rparr> (Some scenarioService) 80
       = Inl (NoEndpointsFound \<lparr>Namespace = ''test'', Name = ''svc''\<rparr>)
   \<and> Resolve (\<lambda>s. 0) \<lparr>listErr = False, listItems = []\<rparr> (Some scenarioService) 80
       \<noteq> Inl (NoMatchingTargetPort ''test'' ''svc'' 80)"
  by (simp add: Resolve_def svcKey_def scenarioService_def)




section \<open>Properties of the upstreams\<close>

lemma digitChar_in_digits: "d < 10 \<Longrightarrow> digitChar d \<in> set ''0123456789''"
  unfolding digitChar_def by (rule nth_mem) simp

lemma showNat_last: "showNat n \<noteq> [] \<and> last (showNat n) \<in> set ''0123456789''"
proof (cases "n < 10")
  case True
  then show ?thesis
    using digitChar_in_digits [of n] by (simp add: showNat.simps [of n])
next
  case False
  have "n mod 10 < 10" by simp
  then show ?thesis
    using False digitChar_in_digits [of "n mod 10"] by (simp add: showNat.simps [of n])
qed

lemma formatD_last: "formatD i \<noteq> [] \<and> last (formatD i) \<in> set ''0123456789''"
  using showNat_last [of "nat i"] showNat_last [of "nat (- i)"]
  by (simp add: formatD_def)

lemma formatted_name_not_invalid:
  "ns @ ''_'' @ nm @ ''_'' @ formatD i \<noteq> InvalidBackendRef"
proof
  assume eq: "ns @ ''_'' @ nm @ ''_'' @ formatD i = InvalidBackendRef"
  have l1: "last (ns @ ''_'' @ nm @ ''_'' @ formatD i) = last (formatD i)"
    using formatD_last [of i] by simp
  have l2: "last InvalidBackendRef = CHR ''f''"
    by (simp add: InvalidBackendRef_def)
  have "last (ns @ ''_'' @ nm @ ''_'' @ formatD i) = last InvalidBackendRef"
    using eq by (rule arg_cong)
  then have "last (formatD i) = CHR ''f''"
    by (simp only: l1 l2)
  then show False
    using formatD_last [of i] by auto
qed

lemma generateUpstreamName_test:
  "generateUpstreamName \<lparr>bs_name = '''', bs_namespace = '''', bs_port = 0\<rparr> = ''invalid_backend_ref''"
  "generateUpstreamName \<lparr>bs_name = ''foo'', bs_namespace = ''test'', bs_port = 9090\<rparr>
     = ''test_foo_9090''"
  by (simp_all add: generateUpstreamName_def InvalidBackendRef_def formatD_def showNat.simps
                    digitChar_def)

text \<open>
  C9. \<open>generateUpstreamName\<close> returns \<open>invalid_backend_ref\<close> if and only if the name of the
  backend service is empty; for a name that is not empty it returns namespace, name and port
  (in decimal) joined by underscores, and that is never \<open>invalid_backend_ref\<close>.
\<close>

theorem generateUpstreamName_invalid_iff_empty_name:
  "(generateUpstreamName service = InvalidBackendRef) = (bs_name service = '''')
   \<and> generateUpstreamName service =
       (if bs_name service = '''' then ''invalid_backend_ref''
        else bs_namespace service @ ''_'' @ bs_name service @ ''_''
               @ formatD (sint (bs_port service)))"
  using formatted_name_not_invalid [of "bs_namespace service" "bs_name service"
          "sint (bs_port service)"]
  by (simp add: generateUpstreamName_def InvalidBackendRef_def)

text \<open>
  C5. \<open>buildUpstreams\<close> copies the endpoint slice of each backend as it is: the backend with
  nil endpoints gives an Upstream with nil Endpoints, but the backend with an empty slice
  that is not nil gives an Upstream whose Endpoints are that empty slice, not nil, where
  \<open>TestBuildUpstreams\<close> expects nil for both.
\<close>

theorem buildUpstreams_keeps_empty_endpoints:
  "buildUpstreams [nilEndpointsBackend, emptyEndpointsBackend] =
     [\<lparr>up_Name = ''test_nil-endpoints_443'', up_Endpoints = None\<rparr>,
      \<lparr>up_Name = ''test_empty-endpoints_443'', up_Endpoints = Some []\<rparr>]
   \<and> map up_Endpoints (buildUpstreams [nilEndpointsBackend, emptyEndpointsBackend])
       \<noteq> [None, None]"
  by (simp add: buildUpstreams_def nilEndpointsBackend_def emptyEndpointsBackend_def
                generateUpstreamName_def formatD_def showNat.simps digitChar_def)

section \<open>Properties of the relationship Capturer\<close>

lemma collectServiceNames_distinct:
  "distinct acc \<Longrightarrow> distinct (collectServiceNames ns rules acc)"
proof (induction rules arbitrary: acc)
  case Nil
  then show ?case by simp
next
  case step: (Cons rule rules)
  show ?case
  proof (cases "rule_BackendRefs rule")
    case Nil
    then show ?thesis using step by simp
  next
    case (Cons ref refs)
    have "distinct (List.insert k acc)" for k
      using step.prems by simp
    then show ?thesis
      using Cons step.IH step.prems by (simp add: Let_def)
  qed
qed

lemma getBackendServiceNamesFromRoute_distinct:
  "distinct (getBackendServiceNamesFromRoute hr)"
  by (simp add: getBackendServiceNamesFromRoute_def collectServiceNames_distinct)

text \<open>The loops touch only the counters, and only those of the keys they visit.\<close>

lemma decrementRefCount_fields:
  "routesToServices (decrementRefCount svc c) = routesToServices c"
  "endpointSliceOwners (decrementRefCount svc c) = endpointSliceOwners c"
  "serviceRefCount (decrementRefCount svc c) s =
     (if s = svc then decremented (serviceRefCount c s) else serviceRefCount c s)"
  by (simp_all add: decrementRefCount_def decremented_def refCountOf_def Let_def)

lemma incrementRefCount_fields:
  "routesToServices (incrementRefCount svc c) = routesToServices c"
  "endpointSliceOwners (incrementRefCount svc c) = endpointSliceOwners c"
  "serviceRefCount (incrementRefCount svc c) s =
     (if s = svc then incremented (serviceRefCount c s) else serviceRefCount c s)"
  by (simp_all add: incrementRefCount_def incremented_def refCountOf_def)

lemma decrementUnreferenced_fields:
  "routesToServices (decrementUnreferenced olds news c) = routesToServices c"
  "endpointSliceOwners (decrementUnreferenced olds news c) = endpointSliceOwners c"
  by (induction olds arbitrary: c) (simp_all add: decrementRefCount_fields)

lemma decrementUnreferenced_count:
  "distinct olds \<Longrightarrow>
   serviceRefCount (decrementUnreferenced olds news c) s =
     (if s \<in> set olds \<and> s \<notin> set news then decremented (serviceRefCount c s)
      else serviceRefCount c s)"
  by (induction olds arbitrary: c) (auto simp: decrementRefCount_fields)

lemma incrementNew_fields:
  "routesToServices (incrementNew news olds c) = routesToServices c"
  "endpointSliceOwners (incrementNew news olds c) = endpointSliceOwners c"
  by (induction news arbitrary: c) (simp_all add: incrementRefCount_fields)

lemma incrementNew_count:
  "distinct news \<Longrightarrow>
   serviceRefCount (incrementNew news olds c) s =
     (if s \<in> set news \<and> s \<notin> set olds then incremented (serviceRefCount c s)
      else serviceRefCount c s)"
  by (induction news arbitrary: c) (auto simp: incrementRefCount_fields)

lemma decrementAll_fields:
  "routesToServices (decrementAll svcs c) = routesToServices c"
  "endpointSliceOwners (decrementAll svcs c) = endpointSliceOwners c"
  by (induction svcs arbitrary: c) (simp_all add: decrementRefCount_fields)

lemma decrementAll_count:
  "distinct svcs \<Longrightarrow>
   serviceRefCount (decrementAll svcs c) s =
     (if s \<in> set svcs then decremented (serviceRefCount c s) else serviceRefCount c s)"
  by (induction svcs arbitrary: c) (auto simp: decrementRefCount_fields)

text \<open>Counting the routes that reference a service.\<close>

lemma routesReferencing_finite:
  "finite (dom m) \<Longrightarrow> finite (routesReferencing m s)"
  by (rule finite_subset [of _ "dom m"]) (auto simp: routesReferencing_def)

lemma routesReferencing_delete:
  "routesReferencing (m(k := None)) s = routesReferencing m s - {k}"
  by (auto simp: routesReferencing_def)

lemma routesReferencing_update:
  "routesReferencing (m(k \<mapsto> services)) s =
     (if s \<in> set services then insert k (routesReferencing m s - {k})
      else routesReferencing m s - {k})"
  by (auto simp: routesReferencing_def)

lemma card_routesReferencing_split:
  assumes "finite (dom m)"
  shows "card (routesReferencing m s) =
           card (routesReferencing m s - {k}) + (if s \<in> set (servicesOf m k) then 1 else 0)"
proof (cases "k \<in> routesReferencing m s")
  case True
  then have "s \<in> set (servicesOf m k)"
    by (auto simp: routesReferencing_def servicesOf_def)
  moreover have "card (routesReferencing m s) = Suc (card (routesReferencing m s - {k}))"
    using routesReferencing_finite [OF assms, of s] True by (rule card.remove)
  ultimately show ?thesis by simp
next
  case False
  then have "s \<notin> set (servicesOf m k)"
    by (auto simp: routesReferencing_def servicesOf_def split: option.splits)
  then show ?thesis using False by simp
qed

lemma card_routesReferencing_update:
  assumes "finite (dom m)"
  shows "card (routesReferencing (m(k \<mapsto> services)) s) =
           card (routesReferencing m s - {k}) + (if s \<in> set services then 1 else 0)"
proof (cases "s \<in> set services")
  case True
  have fin: "finite (routesReferencing m s - {k})"
    using routesReferencing_finite [OF assms, of s] by simp
  have "card (insert k (routesReferencing m s - {k})) = Suc (card (routesReferencing m s - {k}))"
    using fin by (intro card_insert_disjoint) auto
  moreover have "routesReferencing (m(k \<mapsto> services)) s = insert k (routesReferencing m s - {k})"
    using True by (simp only: routesReferencing_update if_True)
  ultimately show ?thesis using True by simp
next
  case False
  then show ?thesis by (simp add: routesReferencing_update)
qed

lemma expectedCount_upsert:
  assumes "finite (dom m)"
  shows "expectedCount (m(k \<mapsto> news)) s =
    (if s \<in> set news \<and> s \<notin> set (servicesOf m k) then incremented (expectedCount m s)
     else if s \<in> set (servicesOf m k) \<and> s \<notin> set news then decremented (expectedCount m s)
     else expectedCount m s)"
  using card_routesReferencing_split [OF assms, of s k]
        card_routesReferencing_update [OF assms, of k news s]
  by (simp add: expectedCount_def incremented_def decremented_def Let_def)

lemma expectedCount_delete:
  assumes "finite (dom m)"
  shows "expectedCount (m(k := None)) s =
    (if s \<in> set (servicesOf m k) then decremented (expectedCount m s) else expectedCount m s)"
  using card_routesReferencing_split [OF assms, of s k]
  by (simp add: expectedCount_def decremented_def Let_def routesReferencing_delete)

lemma servicesOf_distinct:
  "tracked c \<Longrightarrow> distinct (servicesOf (routesToServices c) k)"
  by (auto simp: tracked_def servicesOf_def split: option.splits)

lemma upsertForRoute_fields:
  "routesToServices (upsertForRoute route c) =
     (routesToServices c)(routeKey route \<mapsto> getBackendServiceNamesFromRoute route)"
  "endpointSliceOwners (upsertForRoute route c) = endpointSliceOwners c"
  by (simp_all add: upsertForRoute_def Let_def incrementNew_fields decrementUnreferenced_fields)

lemma upsertForRoute_count:
  assumes "distinct (servicesOf (routesToServices c) (routeKey route))"
  shows "serviceRefCount (upsertForRoute route c) s =
    (if s \<in> set (getBackendServiceNamesFromRoute route)
          \<and> s \<notin> set (servicesOf (routesToServices c) (routeKey route))
     then incremented (serviceRefCount c s)
     else if s \<in> set (servicesOf (routesToServices c) (routeKey route))
          \<and> s \<notin> set (getBackendServiceNamesFromRoute route)
     then decremented (serviceRefCount c s)
     else serviceRefCount c s)"
  using assms
  by (simp add: upsertForRoute_def Let_def incrementNew_count decrementUnreferenced_count
                getBackendServiceNamesFromRoute_distinct)

lemma deleteForRoute_fields:
  "routesToServices (deleteForRoute k c) = (routesToServices c)(k := None)"
  "endpointSliceOwners (deleteForRoute k c) = endpointSliceOwners c"
  by (simp_all add: deleteForRoute_def Let_def decrementAll_fields)

lemma deleteForRoute_count:
  assumes "distinct (servicesOf (routesToServices c) k)"
  shows "serviceRefCount (deleteForRoute k c) s =
    (if s \<in> set (servicesOf (routesToServices c) k) then decremented (serviceRefCount c s)
     else serviceRefCount c s)"
  using assms by (simp add: deleteForRoute_def Let_def decrementAll_count)

lemma tracked_upsertForRoute:
  assumes "tracked c"
  shows "tracked (upsertForRoute route c)"
proof -
  have fin: "finite (dom (routesToServices c))"
    using assms by (simp add: tracked_def)
  have cnt: "serviceRefCount c s = expectedCount (routesToServices c) s" for s
    using assms by (simp add: tracked_def)
  have dist: "distinct services" if "routesToServices c r = Some services" for r services
    using assms that by (auto simp: tracked_def)
  have "finite (dom (routesToServices (upsertForRoute route c)))"
    using fin by (simp add: upsertForRoute_fields)
  moreover have "distinct services"
    if "routesToServices (upsertForRoute route c) r = Some services" for r services
    using that dist getBackendServiceNamesFromRoute_distinct [of route]
    by (auto simp: upsertForRoute_fields split: if_splits)
  moreover have "serviceRefCount (upsertForRoute route c) s =
                   expectedCount (routesToServices (upsertForRoute route c)) s" for s
    by (simp only: upsertForRoute_count [OF servicesOf_distinct [OF assms]]
                   upsertForRoute_fields expectedCount_upsert [OF fin] cnt)
  ultimately show ?thesis
    unfolding tracked_def by blast
qed

lemma tracked_deleteForRoute:
  assumes "tracked c"
  shows "tracked (deleteForRoute k c)"
proof -
  have fin: "finite (dom (routesToServices c))"
    using assms by (simp add: tracked_def)
  have cnt: "serviceRefCount c s = expectedCount (routesToServices c) s" for s
    using assms by (simp add: tracked_def)
  have dist: "distinct services" if "routesToServices c r = Some services" for r services
    using assms that by (auto simp: tracked_def)
  have "finite (dom (routesToServices (deleteForRoute k c)))"
    using fin by (simp add: deleteForRoute_fields)
  moreover have "distinct services"
    if "routesToServices (deleteForRoute k c) r = Some services" for r services
    using that dist by (auto simp: deleteForRoute_fields split: if_splits)
  moreover have "serviceRefCount (deleteForRoute k c) s =
                   expectedCount (routesToServices (deleteForRoute k c)) s" for s
    by (simp only: deleteForRoute_count [OF servicesOf_distinct [OF assms]]
                   deleteForRoute_fields expectedCount_delete [OF fin] cnt)
  ultimately show ?thesis
    unfolding tracked_def by blast
qed

text \<open>The order in which a loop visits a set does not matter.\<close>

lemma decrementUnreferenced_order:
  assumes "distinct xs" "distinct ys" "set xs = set ys"
  shows "decrementUnreferenced xs news c = decrementUnreferenced ys news c"
proof (rule Capturer.equality)
  show "serviceRefCount (decrementUnreferenced xs news c)
          = serviceRefCount (decrementUnreferenced ys news c)"
    using assms by (intro ext) (simp add: decrementUnreferenced_count)
qed (simp_all add: decrementUnreferenced_fields)

lemma incrementNew_order:
  assumes "distinct xs" "distinct ys" "set xs = set ys"
  shows "incrementNew xs olds c = incrementNew ys olds c"
proof (rule Capturer.equality)
  show "serviceRefCount (incrementNew xs olds c) = serviceRefCount (incrementNew ys olds c)"
    using assms by (intro ext) (simp add: incrementNew_count)
qed (simp_all add: incrementNew_fields)

lemma decrementAll_order:
  assumes "distinct xs" "distinct ys" "set xs = set ys"
  shows "decrementAll xs c = decrementAll ys c"
proof (rule Capturer.equality)
  show "serviceRefCount (decrementAll xs c) = serviceRefCount (decrementAll ys c)"
    using assms by (intro ext) (simp add: decrementAll_count)
qed (simp_all add: decrementAll_fields)

text \<open>Every state reached from \<open>NewCapturer\<close> satisfies the invariant.\<close>

lemma tracked_NewCapturer: "tracked NewCapturer"
  by (simp add: tracked_def NewCapturer_def expectedCount_def routesReferencing_def)

lemma tracked_Capture: "tracked c \<Longrightarrow> tracked (Capture g obj c)"
  by (cases obj) (simp_all add: tracked_upsertForRoute Let_def, simp add: tracked_def)

lemma tracked_Remove: "tracked c \<Longrightarrow> tracked (Remove resourceType k c)"
  by (cases resourceType) (simp_all add: tracked_deleteForRoute, simp add: tracked_def)

lemma tracked_applyOp: "tracked c \<Longrightarrow> tracked (applyOp g c op)"
  by (cases op) (simp_all add: tracked_Capture tracked_Remove)

lemma tracked_foldl: "tracked c \<Longrightarrow> tracked (foldl (applyOp g) c ops)"
  by (induction ops arbitrary: c) (simp_all add: tracked_applyOp)

lemma tracked_replay: "tracked (replay g ops)"
  by (simp add: replay_def tracked_foldl tracked_NewCapturer)

lemma routesToServices_Capture:
  "routesToServices (Capture g obj c) = lastCapturedStep (routesToServices c) (CaptureOp obj)"
  by (cases obj) (simp_all add: upsertForRoute_fields Let_def)

lemma routesToServices_Remove:
  "routesToServices (Remove resourceType k c)
     = lastCapturedStep (routesToServices c) (RemoveOp resourceType k)"
  by (cases resourceType) (simp_all add: deleteForRoute_fields)

lemma routesToServices_applyOp:
  "routesToServices (applyOp g c op) = lastCapturedStep (routesToServices c) op"
  by (cases op) (simp_all only: applyOp.simps routesToServices_Capture routesToServices_Remove)

lemma routesToServices_foldl:
  "routesToServices (foldl (applyOp g) c ops) = foldl lastCapturedStep (routesToServices c) ops"
  by (induction ops arbitrary: c) (simp_all add: routesToServices_applyOp)

lemma routesToServices_replay: "routesToServices (replay g ops) = lastCaptured ops"
  by (simp add: replay_def lastCaptured_def routesToServices_foldl NewCapturer_def)

lemmas capturer_defs =
  replay_def NewCapturer_def upsertForRoute_def deleteForRoute_def
  getBackendServiceNamesFromRoute_def servicesOf_def routeKey_def decrementRefCount_def
  incrementRefCount_def refCountOf_def route1_def route2_def fooRef_def barRef_def Let_def

text \<open>
  C1. After every sequence of Capture and Remove operations on a new Capturer, the
  \<open>routesToServices\<close> map holds for each route the backend service set last captured for it
  (and nothing for a route removed since), and for every service name \<open>s\<close> the entry
  \<open>serviceRefCount[s]\<close> is the number of routes whose set contains \<open>s\<close>: it is absent
  exactly when that number is zero, and no zero or negative count is stored.
\<close>

theorem serviceRefCount_counts_referencing_routes:
  "routesToServices (replay g ops) = lastCaptured ops
   \<and> serviceRefCount (replay g ops) s =
       (if card (routesReferencing (lastCaptured ops) s) = 0 then None
        else Some (int (card (routesReferencing (lastCaptured ops) s))))
   \<and> (\<nexists>n. n \<le> 0 \<and> serviceRefCount (replay g ops) s = Some n)"
proof -
  have rts: "routesToServices (replay g ops) = lastCaptured ops"
    by (rule routesToServices_replay)
  have "serviceRefCount (replay g ops) s = expectedCount (routesToServices (replay g ops)) s"
    using tracked_replay [of g ops] by (simp add: tracked_def)
  then have cnt: "serviceRefCount (replay g ops) s =
       (if card (routesReferencing (lastCaptured ops) s) = 0 then None
        else Some (int (card (routesReferencing (lastCaptured ops) s))))"
    by (simp add: rts expectedCount_def)
  have "\<nexists>n. n \<le> 0 \<and> serviceRefCount (replay g ops) s = Some n"
    by (auto simp: cnt)
  with rts cnt show ?thesis by blast
qed

theorem serviceRefCount_counts_referencing_routes_witness:
  "serviceRefCount
     (replay (\<lambda>es. '''') [CaptureOp (HTTPRouteObj route1), CaptureOp (HTTPRouteObj route2)])
     \<lparr>Namespace = ''test'', Name = ''foo''\<rparr> = Some 2
   \<and> card (routesReferencing
        (lastCaptured [CaptureOp (HTTPRouteObj route1), CaptureOp (HTTPRouteObj route2)])
        \<lparr>Namespace = ''test'', Name = ''foo''\<rparr>) = 2
   \<and> serviceRefCount
       (replay (\<lambda>es. '''')
          [CaptureOp (HTTPRouteObj route1), CaptureOp (HTTPRouteObj route2),
           RemoveOp HTTPRouteType (routeKey route1)])
       \<lparr>Namespace = ''other'', Name = ''bar''\<rparr> = None"
proof -
  let ?ops = "[CaptureOp (HTTPRouteObj route1), CaptureOp (HTTPRouteObj route2)]"
  let ?foo = "\<lparr>Namespace = ''test'', Name = ''foo''\<rparr>"
  have run: "serviceRefCount (replay (\<lambda>es. '''') ?ops) ?foo = Some 2"
    by (simp add: capturer_defs)
  have gone: "serviceRefCount
       (replay (\<lambda>es. '''')
          [CaptureOp (HTTPRouteObj route1), CaptureOp (HTTPRouteObj route2),
           RemoveOp HTTPRouteType (routeKey route1)])
       \<lparr>Namespace = ''other'', Name = ''bar''\<rparr> = None"
    by (simp add: capturer_defs)
  have "card (routesReferencing (lastCaptured ?ops) ?foo) = 2"
    using serviceRefCount_counts_referencing_routes [of "\<lambda>es. ''''" ?ops ?foo] run
    by (simp split: if_splits)
  with run gone show ?thesis by simp
qed

lemma decremented_incremented:
  "v \<noteq> Some 0 \<Longrightarrow> decremented (incremented v) = v"
  by (cases v) (simp_all add: decremented_def incremented_def)

lemma expectedCount_not_zero: "expectedCount m s \<noteq> Some 0"
  by (simp add: expectedCount_def)

lemma Capture_Remove_untracked:
  assumes tr: "tracked c" and none: "routesToServices c (routeKey x) = None"
  shows "Remove HTTPRouteType (routeKey x) (Capture g (HTTPRouteObj x) c) = c"
proof -
  let ?k = "routeKey x"
  let ?new = "getBackendServiceNamesFromRoute x"
  let ?c1 = "upsertForRoute x c"
  have old: "servicesOf (routesToServices c) ?k = []"
    using none by (simp add: servicesOf_def)
  have new: "servicesOf (routesToServices ?c1) ?k = ?new"
    by (simp add: upsertForRoute_fields servicesOf_def)
  have nz: "serviceRefCount c s \<noteq> Some 0" for s
    using tr expectedCount_not_zero [of "routesToServices c" s] by (simp add: tracked_def)
  have up: "serviceRefCount ?c1 s =
              (if s \<in> set ?new then incremented (serviceRefCount c s) else serviceRefCount c s)" for s
    using upsertForRoute_count [of c x s] by (simp add: old)
  have del: "serviceRefCount (deleteForRoute ?k ?c1) s =
               (if s \<in> set ?new then decremented (serviceRefCount ?c1 s)
                else serviceRefCount ?c1 s)" for s
    using deleteForRoute_count [of ?c1 ?k s] getBackendServiceNamesFromRoute_distinct [of x]
    by (simp add: new)
  have "deleteForRoute ?k ?c1 = c"
  proof (rule Capturer.equality)
    show "routesToServices (deleteForRoute ?k ?c1) = routesToServices c"
      using none by (intro ext) (simp add: deleteForRoute_fields upsertForRoute_fields)
    show "serviceRefCount (deleteForRoute ?k ?c1) = serviceRefCount c"
      by (intro ext) (simp add: del up decremented_incremented [OF nz])
    show "endpointSliceOwners (deleteForRoute ?k ?c1) = endpointSliceOwners c"
      by (simp add: deleteForRoute_fields upsertForRoute_fields)
  qed simp
  then show ?thesis by simp
qed

text \<open>
  C2, as the code has it. In a state reached by Capture and Remove operations, Capture of
  an HTTPRoute followed by Remove of its key gives back the state before the Capture
  (\<open>routesToServices\<close>, \<open>serviceRefCount\<close> and \<open>endpointSliceOwners\<close>) exactly when the key
  of the route was not tracked before the Capture.
\<close>

theorem Capture_Remove_restores_iff_untracked:
  "(Remove HTTPRouteType (routeKey x) (Capture g (HTTPRouteObj x) (replay g ops)) = replay g ops)
     = (routesToServices (replay g ops) (routeKey x) = None)"
proof
  assume "Remove HTTPRouteType (routeKey x) (Capture g (HTTPRouteObj x) (replay g ops))
            = replay g ops"
  then have "routesToServices (replay g ops) (routeKey x) =
          routesToServices (Remove HTTPRouteType (routeKey x)
             (Capture g (HTTPRouteObj x) (replay g ops))) (routeKey x)"
    by simp
  then show "routesToServices (replay g ops) (routeKey x) = None"
    by (simp add: deleteForRoute_fields)
next
  assume "routesToServices (replay g ops) (routeKey x) = None"
  then show "Remove HTTPRouteType (routeKey x) (Capture g (HTTPRouteObj x) (replay g ops))
               = replay g ops"
    by (rule Capture_Remove_untracked [OF tracked_replay])
qed

theorem Capture_Remove_restores_iff_untracked_witness:
  "routesToServices (replay (\<lambda>es. '''') [CaptureOp (HTTPRouteObj route2)]) (routeKey route1) = None
   \<and> Remove HTTPRouteType (routeKey route1)
        (Capture (\<lambda>es. '''') (HTTPRouteObj route1)
           (replay (\<lambda>es. '''') [CaptureOp (HTTPRouteObj route2)]))
       = replay (\<lambda>es. '''') [CaptureOp (HTTPRouteObj route2)]"
proof -
  have none: "routesToServices (replay (\<lambda>es. '''') [CaptureOp (HTTPRouteObj route2)])
                (routeKey route1) = None"
    by (simp add: capturer_defs)
  with Capture_Remove_restores_iff_untracked
         [of route1 "\<lambda>es. ''''" "[CaptureOp (HTTPRouteObj route2)]"]
  show ?thesis by simp
qed

text \<open>
  C2 as stated fails for a route that is already tracked: after Capture of \<open>route1\<close> the
  Service \<open>test/foo\<close> has count 1; Capture of \<open>route1\<close> again and Remove of its key leave
  no entry for the route and no count for the Service.
\<close>

theorem Capture_Remove_tracked_route_counterexample:
  "serviceRefCount (replay (\<lambda>es. '''') [CaptureOp (HTTPRouteObj route1)])
     \<lparr>Namespace = ''test'', Name = ''foo''\<rparr> = Some 1
   \<and> serviceRefCount
        (Remove HTTPRouteType (routeKey route1)
           (Capture (\<lambda>es. '''') (HTTPRouteObj route1)
              (replay (\<lambda>es. '''') [CaptureOp (HTTPRouteObj route1)])))
        \<lparr>Namespace = ''test'', Name = ''foo''\<rparr> = None
   \<and> Remove HTTPRouteType (routeKey route1)
        (Capture (\<lambda>es. '''') (HTTPRouteObj route1)
           (replay (\<lambda>es. '''') [CaptureOp (HTTPRouteObj route1)]))
       \<noteq> replay (\<lambda>es. '''') [CaptureOp (HTTPRouteObj route1)]"
proof -
  let ?c = "replay (\<lambda>es. '''') [CaptureOp (HTTPRouteObj route1)]"
  let ?c' = "Remove HTTPRouteType (routeKey route1) (Capture (\<lambda>es. '''') (HTTPRouteObj route1) ?c)"
  have a: "serviceRefCount ?c \<lparr>Namespace = ''test'', Name = ''foo''\<rparr> = Some 1"
    by (simp add: capturer_defs)
  have b: "serviceRefCount ?c' \<lparr>Namespace = ''test'', Name = ''foo''\<rparr> = None"
    by (simp add: capturer_defs)
  have "?c' \<noteq> ?c"
  proof
    assume "?c' = ?c"
    then have "serviceRefCount ?c' \<lparr>Namespace = ''test'', Name = ''foo''\<rparr>
                 = serviceRefCount ?c \<lparr>Namespace = ''test'', Name = ''foo''\<rparr>"
      by simp
    then show False by (simp only: a b) simp
  qed
  with a b show ?thesis by blast
qed

section \<open>Properties of the change processor\<close>

lemma updateServicesLoop_fields:
  "st_gc (updateServicesLoop k svcs s) = st_gc s"
  "st_gateways (updateServicesLoop k svcs s) = st_gateways s"
  "st_httpRoutes (updateServicesLoop k svcs s) = st_httpRoutes s"
  "st_endpointSlices (updateServicesLoop k svcs s) = st_endpointSlices s"
  by (induction svcs arbitrary: s) (simp_all split: option.splits)

lemma updateServicesMap_fields:
  "st_gc (updateServicesMap hr s) = st_gc s"
  "st_gateways (updateServicesMap hr s) = st_gateways s"
  "st_httpRoutes (updateServicesMap hr s) = st_httpRoutes s"
  "st_endpointSlices (updateServicesMap hr s) = st_endpointSlices s"
  by (simp_all add: updateServicesMap_def updateServicesLoop_fields)

text \<open>
  C6. An upsert of a GatewayClass (with the configured name), a Gateway or an HTTPRoute whose
  stored predecessor has the same Generation does not panic, leaves \<open>storeChanged\<close> as it
  was, and replaces the stored entry with the object passed.
\<close>

theorem upsert_same_generation_keeps_storeChanged:
  "(gc_Name gc = GatewayClassName (cfg c) \<and> st_gc (cp_store c) = Some prevGc
      \<and> gc_Generation prevGc = gc_Generation gc
    \<longrightarrow> (\<exists>c'. CaptureUpsertChange (GatewayClassObj gc) c = Inr c'
            \<and> storeChanged c' = storeChanged c
            \<and> st_gc (cp_store c') = Some gc))
   \<and> (st_gateways (cp_store c) (gatewayKey gw) = Some prevGw
      \<and> gw_Generation prevGw = gw_Generation gw
    \<longrightarrow> (\<exists>c'. CaptureUpsertChange (GatewayObj gw) c = Inr c'
            \<and> storeChanged c' = storeChanged c
            \<and> st_gateways (cp_store c') = (st_gateways (cp_store c))(gatewayKey gw \<mapsto> gw)))
   \<and> (st_httpRoutes (cp_store c) (routeKey hr) = Some prevHr
      \<and> hr_Generation prevHr = hr_Generation hr
    \<longrightarrow> (\<exists>c'. CaptureUpsertChange (HTTPRouteObj hr) c = Inr c'
            \<and> storeChanged c' = storeChanged c
            \<and> st_httpRoutes (cp_store c') = (st_httpRoutes (cp_store c))(routeKey hr \<mapsto> hr)))"
proof (intro conjI impI)
  assume "gc_Name gc = GatewayClassName (cfg c) \<and> st_gc (cp_store c) = Some prevGc
            \<and> gc_Generation prevGc = gc_Generation gc"
  then show "\<exists>c'. CaptureUpsertChange (GatewayClassObj gc) c = Inr c'
            \<and> storeChanged c' = storeChanged c \<and> st_gc (cp_store c') = Some gc"
    by (simp add: captureGatewayClassChange_def markChanged_def)
next
  assume "st_gateways (cp_store c) (gatewayKey gw) = Some prevGw
            \<and> gw_Generation prevGw = gw_Generation gw"
  then show "\<exists>c'. CaptureUpsertChange (GatewayObj gw) c = Inr c'
            \<and> storeChanged c' = storeChanged c
            \<and> st_gateways (cp_store c') = (st_gateways (cp_store c))(gatewayKey gw \<mapsto> gw)"
    by (simp add: captureGatewayChange_def markChanged_def)
next
  assume "st_httpRoutes (cp_store c) (routeKey hr) = Some prevHr
            \<and> hr_Generation prevHr = hr_Generation hr"
  then show "\<exists>c'. CaptureUpsertChange (HTTPRouteObj hr) c = Inr c'
            \<and> storeChanged c' = storeChanged c
            \<and> st_httpRoutes (cp_store c') = (st_httpRoutes (cp_store c))(routeKey hr \<mapsto> hr)"
    by (simp add: captureHTTPRouteChange_def markChanged_def updateServicesMap_fields)
qed

lemmas processor_example_defs =
  storedProcessor_def exampleClass_def exampleClass2_def exampleGateway_def exampleGateway2_def
  route1_def route1b_def exampleConfig_def gatewayKey_def routeKey_def

theorem upsert_same_generation_keeps_storeChanged_witness:
  "(\<exists>c'. CaptureUpsertChange (GatewayClassObj exampleClass2) storedProcessor = Inr c'
          \<and> storeChanged c' = False \<and> st_gc (cp_store c') = Some exampleClass2)
   \<and> (\<exists>c'. CaptureUpsertChange (GatewayObj exampleGateway2) storedProcessor = Inr c'
          \<and> storeChanged c' = False
          \<and> st_gateways (cp_store c') (gatewayKey exampleGateway) = Some exampleGateway2)
   \<and> (\<exists>c'. CaptureUpsertChange (HTTPRouteObj route1b) storedProcessor = Inr c'
          \<and> storeChanged c' = False
          \<and> st_httpRoutes (cp_store c') (routeKey route1) = Some route1b)"
proof -
  have h1: "gc_Name exampleClass2 = GatewayClassName (cfg storedProcessor)
            \<and> st_gc (cp_store storedProcessor) = Some exampleClass
            \<and> gc_Generation exampleClass = gc_Generation exampleClass2"
    by (simp add: processor_example_defs)
  have h2: "st_gateways (cp_store storedProcessor) (gatewayKey exampleGateway2) = Some exampleGateway
            \<and> gw_Generation exampleGateway = gw_Generation exampleGateway2"
    by (simp add: processor_example_defs)
  have h3: "st_httpRoutes (cp_store storedProcessor) (routeKey route1b) = Some route1
            \<and> hr_Generation route1 = hr_Generation route1b"
    by (simp add: processor_example_defs)
  have k2: "gatewayKey exampleGateway2 = gatewayKey exampleGateway"
    by (simp add: processor_example_defs)
  have k3: "routeKey route1b = routeKey route1"
    by (simp add: processor_example_defs)
  have f: "storeChanged storedProcessor = False"
    by (simp add: storedProcessor_def)
  from upsert_same_generation_keeps_storeChanged
         [of exampleClass2 storedProcessor exampleClass exampleGateway2 exampleGateway
             route1b route1]
       h1 h2 h3
  show ?thesis by (simp add: k2 k3 f)
qed

text \<open>
  C7. When \<open>storeChanged\<close> is false, \<open>Process\<close> returns false with the zero Configuration
  and Statuses and leaves the processor as it is. \<open>Process\<close> returns the flag it found and
  always leaves it false, so a second \<open>Process\<close> right after a first returns false and
  the zero values.
\<close>

theorem Process_without_change_returns_empty:
  "(\<not> storeChanged c \<longrightarrow> Process b c = ((False, zeroConfiguration b, zeroStatuses b), c))
   \<and> fst (fst (Process b c)) = storeChanged c
   \<and> storeChanged (snd (Process b c)) = False
   \<and> Process b (snd (Process b c))
       = ((False, zeroConfiguration b, zeroStatuses b), snd (Process b c))"
  by (simp add: Process_def Let_def)

theorem Process_without_change_returns_empty_witness:
  "\<not> storeChanged storedProcessor
   \<and> Process exampleBuilders storedProcessor = ((False, 0, False), storedProcessor)"
proof -
  have f: "\<not> storeChanged storedProcessor"
    by (simp add: storedProcessor_def)
  with Process_without_change_returns_empty [of storedProcessor exampleBuilders]
  show ?thesis by (simp add: exampleBuilders_def)
qed

text \<open>
  C10. \<open>CaptureDeleteChange\<close> for a Gateway, an HTTPRoute or the GatewayClass with the
  configured name does not panic and sets \<open>storeChanged\<close>, whatever the store holds; the
  next \<open>Process\<close> returns true with the configuration and statuses built from the store,
  and clears the flag.
\<close>

theorem delete_always_marks_changed:
  "resourceType = GatewayType \<or> resourceType = HTTPRouteType
     \<or> (resourceType = GatewayClassType \<and> Name nsname = GatewayClassName (cfg c))
   \<longrightarrow> (\<exists>c'. CaptureDeleteChange resourceType nsname c = Inr c'
          \<and> storeChanged c'
          \<and> Process b c' =
              ((True,
                buildConfiguration b (fst (buildGraph b (cp_store c') (GatewayCtlrName (cfg c'))
                                             (GatewayClassName (cfg c')))),
                buildStatuses b (fst (buildGraph b (cp_store c') (GatewayCtlrName (cfg c'))
                                        (GatewayClassName (cfg c'))))),
               c'\<lparr>storeChanged := False\<rparr>))"
proof
  assume h: "resourceType = GatewayType \<or> resourceType = HTTPRouteType
     \<or> (resourceType = GatewayClassType \<and> Name nsname = GatewayClassName (cfg c))"
  then obtain c' where del: "CaptureDeleteChange resourceType nsname c = Inr c'"
    and ch: "storeChanged c'"
    by (auto simp: markChanged_def Let_def)
  from ch have "Process b c' =
              ((True,
                buildConfiguration b (fst (buildGraph b (cp_store c') (GatewayCtlrName (cfg c'))
                                             (GatewayClassName (cfg c')))),
                buildStatuses b (fst (buildGraph b (cp_store c') (GatewayCtlrName (cfg c'))
                                        (GatewayClassName (cfg c'))))),
               c'\<lparr>storeChanged := False\<rparr>)"
    by (simp add: Process_def Let_def)
  with del ch show "\<exists>c'. CaptureDeleteChange resourceType nsname c = Inr c'
          \<and> storeChanged c'
          \<and> Process b c' =
              ((True,
                buildConfiguration b (fst (buildGraph b (cp_store c') (GatewayCtlrName (cfg c'))
                                             (GatewayClassName (cfg c')))),
                buildStatuses b (fst (buildGraph b (cp_store c') (GatewayCtlrName (cfg c'))
                                        (GatewayClassName (cfg c'))))),
               c'\<lparr>storeChanged := False\<rparr>)"
    by blast
qed

theorem delete_always_marks_changed_witness:
  "st_gateways (cp_store storedProcessor) \<lparr>Namespace = ''test'', Name = ''absent''\<rparr> = None
   \<and> (\<exists>c'. CaptureDeleteChange GatewayType \<lparr>Namespace = ''test'', Name = ''absent''\<rparr>
                storedProcessor = Inr c'
          \<and> storeChanged c'
          \<and> fst (Process exampleBuilders c') = (True, 22, True))"
proof -
  have absent: "st_gateways (cp_store storedProcessor) \<lparr>Namespace = ''test'', Name = ''absent''\<rparr>
                  = None"
    by (simp add: processor_example_defs)
  from delete_always_marks_changed
         [of GatewayType "\<lparr>Namespace = ''test'', Name = ''absent''\<rparr>" storedProcessor
             exampleBuilders]
  obtain c' where del: "CaptureDeleteChange GatewayType \<lparr>Namespace = ''test'', Name = ''absent''\<rparr>
                          storedProcessor = Inr c'"
    and ch: "storeChanged c'"
    and pr: "Process exampleBuilders c' =
              ((True,
                buildConfiguration exampleBuilders
                  (fst (buildGraph exampleBuilders (cp_store c') (GatewayCtlrName (cfg c'))
                          (GatewayClassName (cfg c')))),
                buildStatuses exampleBuilders
                  (fst (buildGraph exampleBuilders (cp_store c') (GatewayCtlrName (cfg c'))
                          (GatewayClassName (cfg c'))))),
               c'\<lparr>storeChanged := False\<rparr>)"
    by auto
  have "cfg c' = exampleConfig"
    using del by (auto simp: markChanged_def storedProcessor_def)
  then have "fst (Process exampleBuilders c') = (True, 22, True)"
    using pr by (simp add: exampleBuilders_def exampleConfig_def)
  with absent del ch show ?thesis by blast
qed

end
